theory Spec2Isabelle
  imports Main
begin

section \<open>The git-graph statement adapter of gitGraphParser.ts\<close>

text \<open>
  The module walks an already parsed git-graph tree and forwards every top-level
  statement to a database object \<open>db\<close> through positional method calls. The embedding
  below follows the source function by function: \<open>populate\<close>, \<open>parseStatement\<close>,
  \<open>parseCommit\<close>, \<open>parseBranch\<close>, \<open>parseMerge\<close>, \<open>parseCheckout\<close> and
  \<open>parseCherryPicking\<close>.
\<close>

subsection \<open>Data\<close>

text \<open>
  \<open>parseStatement\<close> takes its statement as \<^verbatim>\<open>any\<close>: an object whose property
  \<^verbatim>\<open>$type\<close> selects the adapter and whose other properties may or may not exist. A
  statement is therefore a record of the properties the adapters read, each of them
  optional (\<open>None\<close> is JavaScript's \<^verbatim>\<open>undefined\<close>); a property that exists has the
  type the adapters' signatures give it. \<open>dollar_type\<close> is \<^verbatim>\<open>$type\<close>, the string
  that the property read \<^verbatim>\<open>parsers[statement.$type]\<close> uses as its key, and \<open>id'\<close> is
  \<^verbatim>\<open>id\<close>.
\<close>

record statement =
  dollar_type :: string
  id' :: "string option"
  message :: "string option"
  type :: "string option"
  tags :: "string list option"
  name :: "string option"
  order :: "int option"
  branch :: "string option"
  parent :: "string option"

text \<open>
  The tree read by \<open>populate\<close>: the properties \<^verbatim>\<open>dir\<close> and \<^verbatim>\<open>statements\<close>. The
  record is extensible, so the tree may carry further properties (title,
  accessibility text) for the common initialisation.
\<close>

record GitGraph =
  dir :: "string option"
  statements :: "statement list"

text \<open>
  What a read of the table \<^verbatim>\<open>commitType\<close> can give when it is not \<^verbatim>\<open>undefined\<close>: the
  number stored under a key of the table, or the member of \<^verbatim>\<open>Object.prototype\<close> of
  the given name (a function; the prototype object itself for \<^verbatim>\<open>__proto__\<close>).
\<close>

datatype js_value = Number int | Member string

text \<open>
  One invocation of a method of \<open>db\<close>, with its positional arguments. An argument is
  optional where the adapter can pass \<^verbatim>\<open>undefined\<close>.
\<close>

datatype call =
    Call_setDirection string
  | Call_commit string "string option" "js_value option" "string list option"
  | Call_branch "string option" int
  | Call_merge "string option" string "js_value option" "string list option"
  | Call_checkout "string option"
  | Call_cherryPick "string option" string "string list option" "string option"

text \<open>
  The mutable surroundings of a run: the invocations that \<open>db\<close> has received so far,
  oldest first (\<open>db\<close> is the recording double \<^verbatim>\<open>mockDB\<close> of the source's tests, whose
  methods only record their arguments and return), and the lines written with
  \<^verbatim>\<open>log.error\<close>.
\<close>

record world =
  calls :: "call list"
  logged :: "string list"

datatype js_error = TypeError

text \<open>
  A run either returns (\<open>Inr\<close>, with the world it leaves) or is left by an exception
  (\<open>Inl\<close>, with the exception and the world at the moment it was thrown).
\<close>

type_synonym outcome = "(js_error \<times> world) + world"

subsection \<open>The methods of the database and the logger\<close>

definition db_setDirection :: "string \<Rightarrow> world \<Rightarrow> world" where
  "db_setDirection d w = w\<lparr>calls := calls w @ [Call_setDirection d]\<rparr>"

definition db_commit ::
  "string \<times> string option \<times> js_value option \<times> string list option \<Rightarrow> world \<Rightarrow> world" where
  "db_commit args w =
     (case args of (msg, i, t, ts) \<Rightarrow> w\<lparr>calls := calls w @ [Call_commit msg i t ts]\<rparr>)"

definition db_branch :: "string option \<times> int \<Rightarrow> world \<Rightarrow> world" where
  "db_branch args w = (case args of (n, ord) \<Rightarrow> w\<lparr>calls := calls w @ [Call_branch n ord]\<rparr>)"

definition db_merge ::
  "string option \<times> string \<times> js_value option \<times> string list option \<Rightarrow> world \<Rightarrow> world" where
  "db_merge args w =
     (case args of (b, i, t, ts) \<Rightarrow> w\<lparr>calls := calls w @ [Call_merge b i t ts]\<rparr>)"

definition db_checkout :: "string option \<Rightarrow> world \<Rightarrow> world" where
  "db_checkout b w = w\<lparr>calls := calls w @ [Call_checkout b]\<rparr>"

definition db_cherryPick ::
  "string option \<times> string \<times> string list option \<times> string option \<Rightarrow> world \<Rightarrow> world" where
  "db_cherryPick args w =
     (case args of (i, e, ts, p) \<Rightarrow> w\<lparr>calls := calls w @ [Call_cherryPick i e ts p]\<rparr>)"

definition log_error :: "string \<Rightarrow> world \<Rightarrow> world" where
  "log_error line w = w\<lparr>logged := logged w @ [line]\<rparr>"

subsection \<open>Reads of object properties\<close>

text \<open>
  An object literal inherits from \<^verbatim>\<open>Object.prototype\<close>: a property read \<^verbatim>\<open>o[k]\<close> at a
  key that is not an own property of \<^verbatim>\<open>o\<close> continues in the prototype and finds there
  the members that every object inherits (those of the language standard, in an
  environment that has not changed them). \<open>Object_prototype\<close> lists them, each with
  what a plain call \<^verbatim>\<open>f(statement)\<close> of it does when \<^verbatim>\<open>this\<close> is \<^verbatim>\<open>undefined\<close> (the
  file is a module, hence strict code) and the argument is an object:
  \<^verbatim>\<open>constructor\<close> (the function \<^verbatim>\<open>Object\<close>) and \<^verbatim>\<open>toString\<close> return; the other
  methods convert \<^verbatim>\<open>this\<close> to an object and throw a TypeError; \<^verbatim>\<open>__proto__\<close> reads as
  the object \<^verbatim>\<open>Object.prototype\<close> itself, which is truthy and not callable, a
  TypeError again.
\<close>

datatype inherited = Returns | Throws

definition Object_prototype :: "(string \<times> inherited) list" where
  "Object_prototype =
     [(''constructor'', Returns),
      (''toString'', Returns),
      (''toLocaleString'', Throws),
      (''valueOf'', Throws),
      (''hasOwnProperty'', Throws),
      (''isPrototypeOf'', Throws),
      (''propertyIsEnumerable'', Throws),
      (''__defineGetter__'', Throws),
      (''__defineSetter__'', Throws),
      (''__lookupGetter__'', Throws),
      (''__lookupSetter__'', Throws),
      (''__proto__'', Throws)]"

subsection \<open>The adapters\<close>

text \<open>
  The table \<^verbatim>\<open>commitType\<close> of gitGraphTypes.ts is not among the sources. The adapters
  take it as the parameter \<open>commitType\<close>, the own properties of the table:
  \<open>commitType k\<close> is the number stored under the key \<open>k\<close>, and \<open>None\<close> when \<open>k\<close> is not a
  key of the table. The reads \<^verbatim>\<open>commitType[commit.type]\<close> and \<^verbatim>\<open>commitType.NORMAL\<close> are
  property reads of an object, \<open>read_commitType\<close>: at a key of the table the read
  gives the number; at any other key it continues in \<^verbatim>\<open>Object.prototype\<close> and gives
  the member of that name, or \<^verbatim>\<open>undefined\<close> when there is none.
\<close>

type_synonym commit_types = "string \<Rightarrow> int option"

definition read_commitType :: "commit_types \<Rightarrow> string \<Rightarrow> js_value option" where
  "read_commitType commitType k =
     (case commitType k of
        Some n \<Rightarrow> Some (Number n)
      | None \<Rightarrow> (case map_of Object_prototype k of Some f \<Rightarrow> Some (Member k) | None \<Rightarrow> None))"

definition parseCommit ::
  "commit_types \<Rightarrow> statement \<Rightarrow> string \<times> string option \<times> js_value option \<times> string list option" where
  "parseCommit commitType commit =
     (let id = id' commit;
          message = (case message commit of Some m \<Rightarrow> m | None \<Rightarrow> '''');
          type = (case type commit of
                    Some t \<Rightarrow> read_commitType commitType t
                  | None \<Rightarrow> read_commitType commitType ''NORMAL'');
          tags = (case tags commit of Some ts \<Rightarrow> Some ts | None \<Rightarrow> None)
      in (message, id, type, tags))"

definition parseBranch :: "statement \<Rightarrow> string option \<times> int" where
  "parseBranch branch' =
     (let name = name branch';
          order = (case order branch' of Some n \<Rightarrow> n | None \<Rightarrow> 0)
      in (name, order))"

definition parseMerge ::
  "commit_types \<Rightarrow> statement \<Rightarrow> string option \<times> string \<times> js_value option \<times> string list option" where
  "parseMerge commitType merge =
     (let branch = branch merge;
          id = (case id' merge of Some i \<Rightarrow> i | None \<Rightarrow> '''');
          type = (case type merge of Some t \<Rightarrow> read_commitType commitType t | None \<Rightarrow> None);
          tags = (case tags merge of Some ts \<Rightarrow> Some ts | None \<Rightarrow> None)
      in (branch, id, type, tags))"

definition parseCheckout :: "statement \<Rightarrow> string option" where
  "parseCheckout checkout = branch checkout"

text \<open>
  \<^verbatim>\<open>cherryPicking.tags?.length === 0\<close> holds exactly when the property exists and is
  the empty array.
\<close>

definition parseCherryPicking ::
  "statement \<Rightarrow> string option \<times> string \<times> string list option \<times> string option" where
  "parseCherryPicking cherryPicking =
     (let id = id' cherryPicking;
          tags = (if map_option length (tags cherryPicking) = Some 0 then None
                  else tags cherryPicking);
          parent = parent cherryPicking
      in (id, '''', tags, parent))"

subsection \<open>Dispatch\<close>

text \<open>
  \<^verbatim>\<open>parsers\<close> is an object literal with five own properties. The read
  \<^verbatim>\<open>parsers[statement.$type]\<close> at any other key continues in \<^verbatim>\<open>Object.prototype\<close>; a
  member found there is truthy, and \<^verbatim>\<open>parser(statement)\<close> calls it.
\<close>

datatype parser =
    Commit_parser | Branch_parser | Merge_parser | Checkout_parser | CherryPicking_parser
  | Inherited inherited

definition parsers :: "string \<Rightarrow> parser option" where
  "parsers k =
     (if k = ''Commit'' then Some Commit_parser
      else if k = ''Branch'' then Some Branch_parser
      else if k = ''Merge'' then Some Merge_parser
      else if k = ''Checkout'' then Some Checkout_parser
      else if k = ''CherryPicking'' then Some CherryPicking_parser
      else map_option Inherited (map_of Object_prototype k))"

fun run_parser :: "commit_types \<Rightarrow> parser \<Rightarrow> statement \<Rightarrow> world \<Rightarrow> outcome" where
  "run_parser commitType Commit_parser stmt w = Inr (db_commit (parseCommit commitType stmt) w)"
| "run_parser commitType Branch_parser stmt w = Inr (db_branch (parseBranch stmt) w)"
| "run_parser commitType Merge_parser stmt w = Inr (db_merge (parseMerge commitType stmt) w)"
| "run_parser commitType Checkout_parser stmt w = Inr (db_checkout (parseCheckout stmt) w)"
| "run_parser commitType CherryPicking_parser stmt w =
     Inr (db_cherryPick (parseCherryPicking stmt) w)"
| "run_parser commitType (Inherited Returns) stmt w = Inr w"
| "run_parser commitType (Inherited Throws) stmt w = Inl (TypeError, w)"

definition parseStatement :: "commit_types \<Rightarrow> statement \<Rightarrow> world \<Rightarrow> outcome" where
  "parseStatement commitType statement w =
     (case parsers (dollar_type statement) of
        Some parser \<Rightarrow> run_parser commitType parser statement w
      | None \<Rightarrow> Inr (log_error (''Unknown statement type: '' @ dollar_type statement) w))"

text \<open>The loop of \<open>populate\<close> over the statements; an exception leaves it.\<close>

fun parseStatements :: "commit_types \<Rightarrow> statement list \<Rightarrow> world \<Rightarrow> outcome" where
  "parseStatements commitType [] w = Inr w"
| "parseStatements commitType (statement # rest) w =
     (case parseStatement commitType statement w of
        Inl e \<Rightarrow> Inl e
      | Inr w' \<Rightarrow> parseStatements commitType rest w')"

text \<open>
  \<^verbatim>\<open>populateCommonDb\<close> is not among the sources either and is the parameter
  \<open>populateCommonDb\<close>: it receives the tree and the world and returns or throws. The
  test \<^verbatim>\<open>if (ast.dir)\<close> is one of truthiness: a string passes it when it exists and is
  not empty.
\<close>

definition populate ::
  "commit_types \<Rightarrow> ('a GitGraph_scheme \<Rightarrow> world \<Rightarrow> outcome) \<Rightarrow> 'a GitGraph_scheme \<Rightarrow> world
     \<Rightarrow> outcome" where
  "populate commitType populateCommonDb ast w =
     (case populateCommonDb ast w of
        Inl e \<Rightarrow> Inl e
      | Inr w1 \<Rightarrow>
          parseStatements commitType (statements ast)
            (case dir ast of
               Some d \<Rightarrow> if d \<noteq> '''' then db_setDirection d w1 else w1
             | None \<Rightarrow> w1))"

subsection \<open>Observing a run\<close>

text \<open>The world a run leaves, whether it returned or threw.\<close>

definition final :: "outcome \<Rightarrow> world" where
  "final r = (case r of Inl (e, w) \<Rightarrow> w | Inr w \<Rightarrow> w)"

text \<open>
  The invocations that \<open>db\<close> received between the world \<open>w\<close> and the end of the run
  \<open>r\<close>: what the run added to the record of \<open>db\<close>.
\<close>

definition invocations :: "world \<Rightarrow> outcome \<Rightarrow> call list" where
  "invocations w r = drop (length (calls w)) (calls (final r))"

definition is_setDirection :: "call \<Rightarrow> bool" where
  "is_setDirection c = (case c of Call_setDirection d \<Rightarrow> True | _ \<Rightarrow> False)"

text \<open>The object literal \<^verbatim>\<open>{ $type: k }\<close>; further properties are added by record update.\<close>

definition object :: "string \<Rightarrow> statement" where
  "object k =
     \<lparr>dollar_type = k, id' = None, message = None, type = None, tags = None, name = None,
      order = None, branch = None, parent = None\<rparr>"

text \<open>A statement whose dispatch throws.\<close>

definition throws :: "statement \<Rightarrow> bool" where
  "throws statement = (parsers (dollar_type statement) = Some (Inherited Throws))"

text \<open>
  The table of adapters in the words of the specification (section 4.1): the sink
  call prescribed for a statement of each of the five variants, and none for any
  other tag.
\<close>

definition adapter :: "commit_types \<Rightarrow> statement \<Rightarrow> call option" where
  "adapter commitType s =
     (if dollar_type s = ''Commit'' then
        Some (Call_commit (case message s of None \<Rightarrow> '''' | Some m \<Rightarrow> m) (id' s)
               (case type s of
                  None \<Rightarrow> read_commitType commitType ''NORMAL''
                | Some t \<Rightarrow> read_commitType commitType t)
               (tags s))
      else if dollar_type s = ''Branch'' then
        Some (Call_branch (name s) (case order s of None \<Rightarrow> 0 | Some n \<Rightarrow> n))
      else if dollar_type s = ''Merge'' then
        Some (Call_merge (branch s) (case id' s of None \<Rightarrow> '''' | Some i \<Rightarrow> i)
               (case type s of None \<Rightarrow> None | Some t \<Rightarrow> read_commitType commitType t)
               (tags s))
      else if dollar_type s = ''Checkout'' then Some (Call_checkout (branch s))
      else if dollar_type s = ''CherryPicking'' then
        Some (Call_cherryPick (id' s) '''' (if tags s = Some [] then None else tags s) (parent s))
      else None)"

text \<open>The line of \<^verbatim>\<open>log.error\<close> for a tag that \<^verbatim>\<open>parsers[k]\<close> does not find.\<close>

definition diagnostic :: "statement \<Rightarrow> string option" where
  "diagnostic s =
     (if parsers (dollar_type s) = None then Some (''Unknown statement type: '' @ dollar_type s)
      else None)"

text \<open>The invocation of \<^verbatim>\<open>setDirection\<close> that a tree causes, if any.\<close>

definition direction_calls :: "'a GitGraph_scheme \<Rightarrow> call list" where
  "direction_calls ast =
     (case dir ast of Some d \<Rightarrow> if d \<noteq> '''' then [Call_setDirection d] else [] | None \<Rightarrow> [])"

text \<open>
  Modelled from the spec: the table \<^verbatim>\<open>commitType\<close> of gitGraphTypes.ts is missing
  from the sources. The specification's end-to-end example and the tests of the
  source translate the tag NORMAL to the code 0; this is the table with that one
  entry, the concrete table of the examples below.
\<close>

definition commitType_tested :: commit_types where
  "commitType_tested = map_of [(''NORMAL'', 0)]"

text \<open>
  Modelled from the spec: \<^verbatim>\<open>populateCommonDb\<close> of populateCommonDb.ts is missing from
  the sources. The specification describes it as shared setup (diagram title,
  accessibility text) outside the six methods of the sink; on the recording double
  of the tests it makes no invocation. This instance returns the world as it is.
\<close>

definition populateCommonDb_mock :: "GitGraph \<Rightarrow> world \<Rightarrow> outcome" where
  "populateCommonDb_mock ast w = Inr w"

text \<open>
  The statements of the tree in the source's test
  \<^verbatim>\<open>should parse a langium generated gitGraph ast\<close>, followed by the cherry-picking
  statement of the test before it.
\<close>

definition example_statements :: "statement list" where
  "example_statements =
     [(object ''Commit'')\<lparr>id' := Some ''1'', message := Some ''test'',
         tags := Some [''tag1'', ''tag2''], type := Some ''NORMAL''\<rparr>,
      (object ''Branch'')\<lparr>name := Some ''newBranch'', order := Some 1\<rparr>,
      (object ''Merge'')\<lparr>branch := Some ''newBranch'', id' := Some ''1'',
         tags := Some [''tag1'', ''tag2''], type := Some ''NORMAL''\<rparr>,
      (object ''Checkout'')\<lparr>branch := Some ''newBranch''\<rparr>,
      (object ''CherryPicking'')\<lparr>id' := Some ''1'', tags := Some [''tag1'', ''tag2''],
         parent := Some ''2''\<rparr>]"

section \<open>One statement\<close>

lemma parsers_Commit: "parsers ''Commit'' = Some Commit_parser"
  by (simp add: parsers_def)

lemma parsers_Branch: "parsers ''Branch'' = Some Branch_parser"
  by (simp add: parsers_def)

lemma parsers_Merge: "parsers ''Merge'' = Some Merge_parser"
  by (simp add: parsers_def)

lemma parsers_Checkout: "parsers ''Checkout'' = Some Checkout_parser"
  by (simp add: parsers_def)

lemma parsers_CherryPicking: "parsers ''CherryPicking'' = Some CherryPicking_parser"
  by (simp add: parsers_def)

lemma read_commitType_key:
  "ct k = Some n \<Longrightarrow> read_commitType ct k = Some (Number n)"
  by (simp add: read_commitType_def)

lemmas parsers_own =
  parsers_Commit parsers_Branch parsers_Merge parsers_Checkout parsers_CherryPicking

text \<open>What one statement does, whatever the world it starts in.\<close>

lemma parseStatement_Commit:
  "dollar_type s = ''Commit'' \<Longrightarrow>
   parseStatement ct s w =
     Inr (w\<lparr>calls := calls w @
       [Call_commit (case message s of None \<Rightarrow> '''' | Some m \<Rightarrow> m) (id' s)
          (case type s of None \<Rightarrow> read_commitType ct ''NORMAL''
             | Some t \<Rightarrow> read_commitType ct t) (tags s)]\<rparr>)"
  by (simp add: parseStatement_def parsers_own parseCommit_def db_commit_def
      split: option.splits)

lemma parseStatement_Branch:
  "dollar_type s = ''Branch'' \<Longrightarrow>
   parseStatement ct s w =
     Inr (w\<lparr>calls := calls w @
       [Call_branch (name s) (case order s of None \<Rightarrow> 0 | Some n \<Rightarrow> n)]\<rparr>)"
  by (simp add: parseStatement_def parsers_own parseBranch_def db_branch_def
      split: option.splits)

lemma parseStatement_Merge:
  "dollar_type s = ''Merge'' \<Longrightarrow>
   parseStatement ct s w =
     Inr (w\<lparr>calls := calls w @
       [Call_merge (branch s) (case id' s of None \<Rightarrow> '''' | Some i \<Rightarrow> i)
          (case type s of None \<Rightarrow> None | Some t \<Rightarrow> read_commitType ct t) (tags s)]\<rparr>)"
  by (simp add: parseStatement_def parsers_own parseMerge_def db_merge_def
      split: option.splits)

lemma parseStatement_Checkout:
  "dollar_type s = ''Checkout'' \<Longrightarrow>
   parseStatement ct s w = Inr (w\<lparr>calls := calls w @ [Call_checkout (branch s)]\<rparr>)"
  by (simp add: parseStatement_def parsers_own parseCheckout_def db_checkout_def)

lemma parseStatement_CherryPicking:
  "dollar_type s = ''CherryPicking'' \<Longrightarrow>
   parseStatement ct s w =
     Inr (w\<lparr>calls := calls w @
       [Call_cherryPick (id' s) '''' (if tags s = Some [] then None else tags s)
          (parent s)]\<rparr>)"
  by (cases "tags s")
     (simp_all add: parseStatement_def parsers_own parseCherryPicking_def db_cherryPick_def)

lemma parseStatement_unknown:
  "parsers (dollar_type s) = None \<Longrightarrow>
   parseStatement ct s w =
     Inr (w\<lparr>logged := logged w @ [''Unknown statement type: '' @ dollar_type s]\<rparr>)"
  by (simp add: parseStatement_def log_error_def)

lemma parseStatement_inherited_returns:
  "parsers (dollar_type s) = Some (Inherited Returns) \<Longrightarrow> parseStatement ct s w = Inr w"
  by (simp add: parseStatement_def)

lemma parseStatement_throws:
  "throws s \<Longrightarrow> parseStatement ct s w = Inl (TypeError, w)"
  by (simp add: parseStatement_def throws_def)

lemma parsers_cases:
  "parsers k = None \<or> parsers k = Some (Inherited Returns) \<or> parsers k = Some (Inherited Throws)
   \<or> k = ''Commit'' \<or> k = ''Branch'' \<or> k = ''Merge'' \<or> k = ''Checkout''
   \<or> k = ''CherryPicking''"
proof (cases "map_of Object_prototype k")
  case None
  then show ?thesis by (simp add: parsers_def)
next
  case (Some i)
  then show ?thesis by (cases i) (simp_all add: parsers_def)
qed

text \<open>
  Every statement adds the call of its adapter, if its tag has one, and the
  diagnostic, if its tag is not found, to whatever the world holds; it throws for
  the tags of \<open>throws\<close> and for no other.
\<close>

lemma adapter_throws: "throws s \<Longrightarrow> adapter ct s = None"
  by (auto simp: throws_def adapter_def parsers_own)

lemma diagnostic_throws: "throws s \<Longrightarrow> diagnostic s = None"
  by (simp add: throws_def diagnostic_def)

lemma parseStatement_final:
  "final (parseStatement ct s w) =
     w\<lparr>calls := calls w @ (case adapter ct s of Some c \<Rightarrow> [c] | None \<Rightarrow> []),
       logged := logged w @ (case diagnostic s of Some l \<Rightarrow> [l] | None \<Rightarrow> [])\<rparr>"
proof -
  consider
      (unknown) "parsers (dollar_type s) = None"
    | (returns) "parsers (dollar_type s) = Some (Inherited Returns)"
    | (throws) "throws s"
    | (commit) "dollar_type s = ''Commit''"
    | (branch) "dollar_type s = ''Branch''"
    | (merge) "dollar_type s = ''Merge''"
    | (checkout) "dollar_type s = ''Checkout''"
    | (cherry) "dollar_type s = ''CherryPicking''"
    using parsers_cases [of "dollar_type s"] by (auto simp: throws_def)
  then show ?thesis
  proof cases
    case unknown
    then have "adapter ct s = None"
      by (auto simp: adapter_def parsers_own)
    with unknown show ?thesis
      by (simp add: parseStatement_unknown final_def diagnostic_def)
  next
    case returns
    then have "adapter ct s = None"
      by (auto simp: adapter_def parsers_own)
    with returns show ?thesis
      by (simp add: parseStatement_inherited_returns final_def diagnostic_def)
  next
    case throws
    then show ?thesis
      by (simp add: parseStatement_throws final_def adapter_throws diagnostic_throws)
  next
    case commit
    then show ?thesis
      by (simp add: parseStatement_Commit final_def adapter_def diagnostic_def parsers_own)
  next
    case branch
    then show ?thesis
      by (simp add: parseStatement_Branch final_def adapter_def diagnostic_def parsers_own)
  next
    case merge
    then show ?thesis
      by (simp add: parseStatement_Merge final_def adapter_def diagnostic_def parsers_own)
  next
    case checkout
    then show ?thesis
      by (simp add: parseStatement_Checkout final_def adapter_def diagnostic_def parsers_own)
  next
    case cherry
    then show ?thesis
      by (simp add: parseStatement_CherryPicking final_def adapter_def diagnostic_def
          parsers_own)
  qed
qed

lemma parseStatement_returns:
  "\<not> throws s \<Longrightarrow> parseStatements ct (s # ss) w = parseStatements ct ss (final (parseStatement ct s w))"
proof -
  assume "\<not> throws s"
  then have "\<exists>v. parseStatement ct s w = Inr v"
  proof (cases "parsers (dollar_type s)")
    case None
    then show ?thesis by (simp add: parseStatement_def)
  next
    case (Some p)
    with \<open>\<not> throws s\<close> have "p \<noteq> Inherited Throws"
      by (simp add: throws_def)
    then have "\<exists>v. run_parser ct p s w = Inr v"
      by (cases "(ct, p, s, w)" rule: run_parser.cases) simp_all
    with Some show ?thesis by (simp add: parseStatement_def)
  qed
  then obtain v where "parseStatement ct s w = Inr v" ..
  then show ?thesis by (simp add: final_def)
qed

section \<open>The loop and the whole run\<close>

text \<open>
  The loop handles the statements before the first one that throws: it adds their
  calls and diagnostics in their order, and it throws exactly when some statement
  does.
\<close>

lemma parseStatements_final:
  "final (parseStatements ct ss w) =
     w\<lparr>calls := calls w @ List.map_filter (adapter ct) (takeWhile (\<lambda>s. \<not> throws s) ss),
       logged := logged w @ List.map_filter diagnostic (takeWhile (\<lambda>s. \<not> throws s) ss)\<rparr>"
proof (induction ss arbitrary: w)
  case Nil
  show ?case by (simp add: final_def)
next
  case (Cons s ss)
  show ?case
  proof (cases "throws s")
    case True
    then show ?thesis
      by (simp add: parseStatement_throws final_def)
  next
    case False
    note step = parseStatement_returns [OF False, of ct ss w]
    show ?thesis
      unfolding step Cons.IH
      using False
      by (simp add: parseStatement_final split: option.splits)
  qed
qed

lemma parseStatements_isl:
  "isl (parseStatements ct ss w) = (\<exists>s \<in> set ss. throws s)"
proof (induction ss arbitrary: w)
  case Nil
  show ?case by simp
next
  case (Cons s ss)
  show ?case
  proof (cases "throws s")
    case True
    then show ?thesis by (simp add: parseStatement_throws)
  next
    case False
    show ?thesis
      unfolding parseStatement_returns [OF False, of ct ss w] Cons.IH
      using False by simp
  qed
qed

lemma populate_final:
  assumes "populateCommonDb ast w = Inr u"
  shows "final (populate ct populateCommonDb ast w) =
     u\<lparr>calls := calls u @ direction_calls ast @
          List.map_filter (adapter ct) (takeWhile (\<lambda>s. \<not> throws s) (statements ast)),
       logged := logged u @
          List.map_filter diagnostic (takeWhile (\<lambda>s. \<not> throws s) (statements ast))\<rparr>"
  using assms
  by (simp add: populate_def parseStatements_final direction_calls_def db_setDirection_def
      split: option.splits)

lemma populate_isl:
  assumes "populateCommonDb ast w = Inr u"
  shows "isl (populate ct populateCommonDb ast w) = (\<exists>s \<in> set (statements ast). throws s)"
  using assms by (simp add: populate_def parseStatements_isl)

lemma populate_invocations:
  assumes "populateCommonDb ast w = Inr u"
  shows "invocations u (populate ct populateCommonDb ast w) =
     direction_calls ast @
     List.map_filter (adapter ct) (takeWhile (\<lambda>s. \<not> throws s) (statements ast))"
  using assms by (simp add: invocations_def populate_final)

text \<open>
  When no statement throws, the run returns, and it has made the call of every
  statement that has an adapter, once each and in the order of the statements, after
  the call of \<^verbatim>\<open>setDirection\<close> if there is one.
\<close>

lemma populate_returns:
  assumes "populateCommonDb ast w = Inr u" and "\<forall>s \<in> set (statements ast). \<not> throws s"
  shows "populate ct populateCommonDb ast w =
     Inr (u\<lparr>calls := calls u @ direction_calls ast @
               List.map_filter (adapter ct) (statements ast),
            logged := logged u @ List.map_filter diagnostic (statements ast)\<rparr>)"
proof -
  have "\<not> isl (populate ct populateCommonDb ast w)"
    using assms by (simp add: populate_isl)
  then obtain v where v: "populate ct populateCommonDb ast w = Inr v"
    by (cases "populate ct populateCommonDb ast w") auto
  then have "v = final (populate ct populateCommonDb ast w)"
    by (simp add: final_def)
  moreover have "takeWhile (\<lambda>s. \<not> throws s) (statements ast) = statements ast"
    using assms(2) by simp
  ultimately have "v = u\<lparr>calls := calls u @ direction_calls ast @
               List.map_filter (adapter ct) (statements ast),
            logged := logged u @ List.map_filter diagnostic (statements ast)\<rparr>"
    using populate_final [where populateCommonDb = populateCommonDb, OF assms(1), of ct]
    by simp
  with v show ?thesis by simp
qed

lemma adapter_not_setDirection:
  "filter is_setDirection (List.map_filter (adapter ct) ss) = []"
proof (induction ss)
  case Nil
  show ?case by simp
next
  case (Cons s ss)
  have "adapter ct s = Some c \<Longrightarrow> \<not> is_setDirection c" for c
    by (auto simp: adapter_def is_setDirection_def split: if_splits)
  with Cons.IH show ?case
    by (simp split: option.splits)
qed

section \<open>The claims\<close>

text \<open>
  Claim C1. For the five statements of the end-to-end example (a commit with id
  "1", message "test", tags tag1 and tag2 and type NORMAL; a branch newBranch of
  order 1; a merge of newBranch with id "1", the same tags and type NORMAL; a
  checkout of newBranch; a cherry-pick of "1" with the same tags and parent "2"),
  \<open>populate\<close> returns, and the calls its statements make are exactly
  commit("test","1",0,[tag1,tag2]), branch("newBranch",1),
  merge("newBranch","1",0,[tag1,tag2]), checkout("newBranch") and
  cherryPick("1","",[tag1,tag2],"2"), in that order. The table translates NORMAL to
  0, as the tests of the source expect; the common initialisation has returned; the
  call for the direction, if the tree has one, comes first.
\<close>

theorem populate_example:
  assumes "commitType ''NORMAL'' = Some 0"
    and "populateCommonDb ast w = Inr u"
    and "statements ast = example_statements"
  shows "populate commitType populateCommonDb ast w =
     Inr (u\<lparr>calls := calls u @ direction_calls ast @
       [Call_commit ''test'' (Some ''1'') (Some (Number 0)) (Some [''tag1'', ''tag2'']),
        Call_branch (Some ''newBranch'') 1,
        Call_merge (Some ''newBranch'') ''1'' (Some (Number 0)) (Some [''tag1'', ''tag2'']),
        Call_checkout (Some ''newBranch''),
        Call_cherryPick (Some ''1'') '''' (Some [''tag1'', ''tag2'']) (Some ''2'')]\<rparr>)"
proof -
  have ok: "\<forall>s \<in> set (statements ast). \<not> throws s"
    by (simp add: assms(3) example_statements_def object_def throws_def parsers_own)
  have calls: "List.map_filter (adapter commitType) (statements ast) =
       [Call_commit ''test'' (Some ''1'') (Some (Number 0)) (Some [''tag1'', ''tag2'']),
        Call_branch (Some ''newBranch'') 1,
        Call_merge (Some ''newBranch'') ''1'' (Some (Number 0)) (Some [''tag1'', ''tag2'']),
        Call_checkout (Some ''newBranch''),
        Call_cherryPick (Some ''1'') '''' (Some [''tag1'', ''tag2'']) (Some ''2'')]"
    using assms(1)
    by (simp add: assms(3) read_commitType_key example_statements_def object_def adapter_def)
  have lines: "List.map_filter diagnostic (statements ast) = []"
    by (simp add: assms(3) example_statements_def object_def diagnostic_def parsers_own)
  show ?thesis
    using populate_returns [where populateCommonDb = populateCommonDb, OF assms(2) ok,
        of commitType]
    by (simp add: calls lines)
qed

theorem populate_example_witness:
  "commitType_tested ''NORMAL'' = Some 0 \<and>
   populateCommonDb_mock \<lparr>dir = None, statements = example_statements\<rparr>
     \<lparr>calls = [], logged = []\<rparr> = Inr \<lparr>calls = [], logged = []\<rparr> \<and>
   populate commitType_tested populateCommonDb_mock
     \<lparr>dir = None, statements = example_statements\<rparr> \<lparr>calls = [], logged = []\<rparr> =
     Inr \<lparr>calls =
       [Call_commit ''test'' (Some ''1'') (Some (Number 0)) (Some [''tag1'', ''tag2'']),
        Call_branch (Some ''newBranch'') 1,
        Call_merge (Some ''newBranch'') ''1'' (Some (Number 0)) (Some [''tag1'', ''tag2'']),
        Call_checkout (Some ''newBranch''),
        Call_cherryPick (Some ''1'') '''' (Some [''tag1'', ''tag2'']) (Some ''2'')],
       logged = []\<rparr>"
  using populate_example [of commitType_tested populateCommonDb_mock
      "\<lparr>dir = None, statements = example_statements\<rparr>" "\<lparr>calls = [], logged = []\<rparr>"
      "\<lparr>calls = [], logged = []\<rparr>"]
  by (simp add: commitType_tested_def populateCommonDb_mock_def direction_calls_def)

text \<open>
  Claim C2 says that for every tree \<open>populate\<close> makes exactly one call per statement
  with one of the five tags, in the order of the statements. The code does so when
  no statement throws (\<open>populate_returns\<close>). In the tree below the first statement
  has the tag hasOwnProperty: the read \<^verbatim>\<open>parsers['hasOwnProperty']\<close> finds the
  inherited method, the call of it throws a TypeError that leaves \<open>populate\<close>, and
  the commit statement after it gets no call.
\<close>

theorem populate_aborted_before_commit:
  "populate commitType_tested populateCommonDb_mock
     \<lparr>dir = None,
      statements = [object ''hasOwnProperty'', (object ''Commit'')\<lparr>id' := Some ''1''\<rparr>]\<rparr>
     \<lparr>calls = [], logged = []\<rparr> =
   Inl (TypeError, \<lparr>calls = [], logged = []\<rparr>)"
  by (simp add: populate_def populateCommonDb_mock_def parseStatement_def parsers_def
      Object_prototype_def object_def)

text \<open>
  Claim C3 says that a statement with an unrecognized tag is logged and skipped, that
  the other statements still get their calls and that no exception escapes. The code
  does so for a tag that the read \<^verbatim>\<open>parsers[k]\<close> does not find
  (\<open>parseStatement_unknown\<close>). A tag that names a member of \<^verbatim>\<open>Object.prototype\<close> is
  found: the statement with the tag toString is passed over with no diagnostic, and
  the statement with the tag valueOf throws a TypeError that leaves \<open>populate\<close>
  before the checkout statement after it is reached.
\<close>

theorem unknown_tag_found_in_prototype:
  "parseStatement commitType_tested (object ''toString'') \<lparr>calls = [], logged = []\<rparr> =
     Inr \<lparr>calls = [], logged = []\<rparr> \<and>
   populate commitType_tested populateCommonDb_mock
     \<lparr>dir = None,
      statements = [object ''valueOf'', (object ''Checkout'')\<lparr>branch := Some ''main''\<rparr>]\<rparr>
     \<lparr>calls = [], logged = []\<rparr> =
   Inl (TypeError, \<lparr>calls = [], logged = []\<rparr>)"
  by (simp add: populate_def populateCommonDb_mock_def parseStatement_def parsers_def
      Object_prototype_def object_def)

text \<open>
  Claim C4, as amended. When the common initialisation has returned: a tree whose
  direction is absent or is the empty string causes no call of \<^verbatim>\<open>setDirection\<close>, and
  a tree whose direction is present and not empty causes exactly one, with that
  value. (The claim as stated promises the call for every direction that is present;
  the guard \<^verbatim>\<open>if (ast.dir)\<close> tests truthiness, and the empty string fails it.)
\<close>

theorem setDirection_calls:
  assumes "populateCommonDb ast w = Inr u"
  shows "filter is_setDirection (invocations u (populate ct populateCommonDb ast w)) =
     (case dir ast of
        None \<Rightarrow> []
      | Some d \<Rightarrow> if d = '''' then [] else [Call_setDirection d])"
  using assms
  by (simp add: populate_invocations adapter_not_setDirection direction_calls_def
      is_setDirection_def split: option.splits)

theorem setDirection_calls_witness:
  "populateCommonDb_mock \<lparr>dir = Some ''LR'', statements = example_statements\<rparr>
     \<lparr>calls = [], logged = []\<rparr> = Inr \<lparr>calls = [], logged = []\<rparr> \<and>
   filter is_setDirection
     (invocations \<lparr>calls = [], logged = []\<rparr>
        (populate commitType_tested populateCommonDb_mock
           \<lparr>dir = Some ''LR'', statements = example_statements\<rparr>
           \<lparr>calls = [], logged = []\<rparr>)) =
     [Call_setDirection ''LR'']"
  using setDirection_calls [of populateCommonDb_mock
      "\<lparr>dir = Some ''LR'', statements = example_statements\<rparr>" "\<lparr>calls = [], logged = []\<rparr>"
      "\<lparr>calls = [], logged = []\<rparr>" commitType_tested]
  by (simp add: populateCommonDb_mock_def)

text \<open>
  Claim C4 as stated fails: the direction of this tree is present, it is the empty
  string, and the run makes no call at all.
\<close>

theorem setDirection_empty_string:
  "dir \<lparr>dir = Some '''', statements = []\<rparr> = Some '''' \<and>
   populate commitType_tested populateCommonDb_mock \<lparr>dir = Some '''', statements = []\<rparr>
     \<lparr>calls = [], logged = []\<rparr> = Inr \<lparr>calls = [], logged = []\<rparr>"
  by (simp add: populate_def populateCommonDb_mock_def)

text \<open>
  Claim C5. A commit statement with no type is passed to \<^verbatim>\<open>db.commit\<close> with the code
  of NORMAL as its type argument; a merge statement with no type is passed to
  \<^verbatim>\<open>db.merge\<close> with an absent type argument; the two defaults differ (the table has
  a code for NORMAL).
\<close>

theorem default_type_of_commit_and_merge:
  assumes "dollar_type c = ''Commit''" and "type c = None"
    and "dollar_type m = ''Merge''" and "type m = None"
    and "commitType ''NORMAL'' = Some normal"
  shows "parseStatement commitType c w =
       Inr (w\<lparr>calls := calls w @
         [Call_commit (case message c of None \<Rightarrow> '''' | Some x \<Rightarrow> x) (id' c)
            (Some (Number normal)) (tags c)]\<rparr>) \<and>
     parseStatement commitType m w =
       Inr (w\<lparr>calls := calls w @
         [Call_merge (branch m) (case id' m of None \<Rightarrow> '''' | Some i \<Rightarrow> i) None (tags m)]\<rparr>) \<and>
     fst (snd (snd (parseCommit commitType c))) \<noteq> fst (snd (snd (parseMerge commitType m)))"
  using assms
  by (simp add: parseStatement_Commit parseStatement_Merge parseCommit_def parseMerge_def
      read_commitType_def)

theorem default_type_of_commit_and_merge_witness:
  "parseStatement commitType_tested ((object ''Commit'')\<lparr>id' := Some ''1''\<rparr>)
     \<lparr>calls = [], logged = []\<rparr> =
     Inr \<lparr>calls = [Call_commit '''' (Some ''1'') (Some (Number 0)) None], logged = []\<rparr> \<and>
   parseStatement commitType_tested ((object ''Merge'')\<lparr>branch := Some ''develop''\<rparr>)
     \<lparr>calls = [], logged = []\<rparr> =
     Inr \<lparr>calls = [Call_merge (Some ''develop'') '''' None None], logged = []\<rparr>"
  using default_type_of_commit_and_merge [of "(object ''Commit'')\<lparr>id' := Some ''1''\<rparr>"
      "(object ''Merge'')\<lparr>branch := Some ''develop''\<rparr>" commitType_tested 0
      "\<lparr>calls = [], logged = []\<rparr>"]
  by (simp add: object_def commitType_tested_def read_commitType_def)

text \<open>
  Claim C6. For every cherry-picking statement the second argument of
  \<^verbatim>\<open>db.cherryPick\<close> is the empty string, and the tags argument is absent when the
  tags of the statement are present with no element (and is the tags property of
  the statement otherwise).
\<close>

theorem cherryPick_arguments:
  assumes "dollar_type s = ''CherryPicking''"
  shows "parseStatement ct s w =
     Inr (w\<lparr>calls := calls w @
       [Call_cherryPick (id' s) '''' (if tags s = Some [] then None else tags s)
          (parent s)]\<rparr>)"
  using assms by (rule parseStatement_CherryPicking)

theorem cherryPick_arguments_witness:
  "parseStatement commitType_tested
     ((object ''CherryPicking'')\<lparr>id' := Some ''1'', tags := Some [], parent := Some ''2''\<rparr>)
     \<lparr>calls = [], logged = []\<rparr> =
   Inr \<lparr>calls = [Call_cherryPick (Some ''1'') '''' None (Some ''2'')], logged = []\<rparr>"
  using cherryPick_arguments [of
      "(object ''CherryPicking'')\<lparr>id' := Some ''1'', tags := Some [], parent := Some ''2''\<rparr>"
      commitType_tested "\<lparr>calls = [], logged = []\<rparr>"]
  by (simp add: object_def)

text \<open>
  Claim C7. A branch statement with no order is passed to \<^verbatim>\<open>db.branch\<close> with the
  order 0 and with its name unchanged; a merge statement with no id is passed to
  \<^verbatim>\<open>db.merge\<close> with the empty string as its id.
\<close>

theorem default_order_and_id:
  assumes "dollar_type b = ''Branch''" and "order b = None"
    and "dollar_type m = ''Merge''" and "id' m = None"
  shows "parseStatement ct b w = Inr (w\<lparr>calls := calls w @ [Call_branch (name b) 0]\<rparr>) \<and>
     parseStatement ct m w =
       Inr (w\<lparr>calls := calls w @
         [Call_merge (branch m) '''' (case type m of None \<Rightarrow> None | Some t \<Rightarrow> read_commitType ct t)
            (tags m)]\<rparr>)"
  using assms by (simp add: parseStatement_Branch parseStatement_Merge)

theorem default_order_and_id_witness:
  "parseStatement commitType_tested ((object ''Branch'')\<lparr>name := Some ''develop''\<rparr>)
     \<lparr>calls = [], logged = []\<rparr> =
     Inr \<lparr>calls = [Call_branch (Some ''develop'') 0], logged = []\<rparr> \<and>
   parseStatement commitType_tested
     ((object ''Merge'')\<lparr>branch := Some ''develop'', type := Some ''NORMAL''\<rparr>)
     \<lparr>calls = [], logged = []\<rparr> =
     Inr \<lparr>calls = [Call_merge (Some ''develop'') '''' (Some (Number 0)) None], logged = []\<rparr>"
  using default_order_and_id [of "(object ''Branch'')\<lparr>name := Some ''develop''\<rparr>"
      "(object ''Merge'')\<lparr>branch := Some ''develop'', type := Some ''NORMAL''\<rparr>"
      commitType_tested "\<lparr>calls = [], logged = []\<rparr>"]
  by (simp add: object_def commitType_tested_def read_commitType_def)

text \<open>
  Claim C8. A commit statement and a merge statement whose tags are present with no
  element pass that empty sequence on as the tags argument; only a cherry-picking
  statement with such tags passes an absent argument.
\<close>

theorem empty_tags_of_commit_and_merge:
  assumes "dollar_type c = ''Commit''" and "tags c = Some []"
    and "dollar_type m = ''Merge''" and "tags m = Some []"
    and "dollar_type p = ''CherryPicking''" and "tags p = Some []"
  shows "parseStatement ct c w =
       Inr (w\<lparr>calls := calls w @
         [Call_commit (case message c of None \<Rightarrow> '''' | Some x \<Rightarrow> x) (id' c)
            (case type c of None \<Rightarrow> read_commitType ct ''NORMAL''
               | Some t \<Rightarrow> read_commitType ct t) (Some [])]\<rparr>) \<and>
     parseStatement ct m w =
       Inr (w\<lparr>calls := calls w @
         [Call_merge (branch m) (case id' m of None \<Rightarrow> '''' | Some i \<Rightarrow> i)
            (case type m of None \<Rightarrow> None | Some t \<Rightarrow> read_commitType ct t) (Some [])]\<rparr>) \<and>
     parseStatement ct p w =
       Inr (w\<lparr>calls := calls w @ [Call_cherryPick (id' p) '''' None (parent p)]\<rparr>)"
  using assms
  by (simp add: parseStatement_Commit parseStatement_Merge parseStatement_CherryPicking)

theorem empty_tags_of_commit_and_merge_witness:
  "parseStatement commitType_tested ((object ''Commit'')\<lparr>id' := Some ''1'', tags := Some []\<rparr>)
     \<lparr>calls = [], logged = []\<rparr> =
     Inr \<lparr>calls = [Call_commit '''' (Some ''1'') (Some (Number 0)) (Some [])], logged = []\<rparr> \<and>
   parseStatement commitType_tested
     ((object ''Merge'')\<lparr>branch := Some ''develop'', tags := Some []\<rparr>)
     \<lparr>calls = [], logged = []\<rparr> =
     Inr \<lparr>calls = [Call_merge (Some ''develop'') '''' None (Some [])], logged = []\<rparr> \<and>
   parseStatement commitType_tested
     ((object ''CherryPicking'')\<lparr>id' := Some ''1'', tags := Some [], parent := Some ''2''\<rparr>)
     \<lparr>calls = [], logged = []\<rparr> =
     Inr \<lparr>calls = [Call_cherryPick (Some ''1'') '''' None (Some ''2'')], logged = []\<rparr>"
  using empty_tags_of_commit_and_merge [of
      "(object ''Commit'')\<lparr>id' := Some ''1'', tags := Some []\<rparr>"
      "(object ''Merge'')\<lparr>branch := Some ''develop'', tags := Some []\<rparr>"
      "(object ''CherryPicking'')\<lparr>id' := Some ''1'', tags := Some [], parent := Some ''2''\<rparr>"
      commitType_tested "\<lparr>calls = [], logged = []\<rparr>"]
  by (simp add: object_def commitType_tested_def read_commitType_def)

text \<open>
  Claim C9, as amended. A commit statement whose type is present and is not a key of
  the table is passed to \<^verbatim>\<open>db.commit\<close> with the result of the read
  \<^verbatim>\<open>commitType[commit.type]\<close> as its type argument, not with the code of NORMAL: the
  argument is absent when the type does not name a member of \<^verbatim>\<open>Object.prototype\<close>
  either, and it is the inherited member of that name when it does. The default is
  applied only when the type is absent. (The claim as stated promises an absent
  argument for every type that is not a key of the table.)
\<close>

theorem unknown_type_of_commit:
  assumes "dollar_type c = ''Commit''" and "type c = Some t" and "commitType t = None"
    and "commitType ''NORMAL'' = Some normal"
  shows "parseStatement commitType c w =
       Inr (w\<lparr>calls := calls w @
         [Call_commit (case message c of None \<Rightarrow> '''' | Some x \<Rightarrow> x) (id' c)
            (if t \<in> set (map fst Object_prototype) then Some (Member t) else None)
            (tags c)]\<rparr>) \<and>
     fst (snd (snd (parseCommit commitType c))) = read_commitType commitType t \<and>
     fst (snd (snd (parseCommit commitType c))) \<noteq> read_commitType commitType ''NORMAL''"
proof -
  have read: "read_commitType commitType t =
      (if t \<in> set (map fst Object_prototype) then Some (Member t) else None)"
  proof (cases "map_of Object_prototype t")
    case None
    then have "t \<notin> set (map fst Object_prototype)"
      by (simp add: map_of_eq_None_iff)
    with None assms(3) show ?thesis
      by (simp add: read_commitType_def)
  next
    case (Some f)
    then have "t \<in> set (map fst Object_prototype)"
      using map_of_eq_None_iff [of Object_prototype t] by simp
    with Some assms(3) show ?thesis
      by (simp add: read_commitType_def)
  qed
  have normal: "read_commitType commitType ''NORMAL'' = Some (Number normal)"
    using assms(4) by (simp add: read_commitType_def)
  have arg: "fst (snd (snd (parseCommit commitType c))) = read_commitType commitType t"
    using assms(2) by (simp add: parseCommit_def)
  have "parseStatement commitType c w =
       Inr (w\<lparr>calls := calls w @
         [Call_commit (case message c of None \<Rightarrow> '''' | Some x \<Rightarrow> x) (id' c)
            (read_commitType commitType t) (tags c)]\<rparr>)"
    using assms(1,2) by (simp add: parseStatement_Commit)
  moreover have "read_commitType commitType t \<noteq> Some (Number normal)"
    unfolding read by simp
  ultimately show ?thesis
    unfolding arg normal unfolding read by simp
qed

theorem unknown_type_of_commit_witness:
  "commitType_tested ''SQUASH'' = None \<and> commitType_tested ''NORMAL'' = Some 0 \<and>
   parseStatement commitType_tested
     ((object ''Commit'')\<lparr>id' := Some ''1'', type := Some ''SQUASH''\<rparr>)
     \<lparr>calls = [], logged = []\<rparr> =
   Inr \<lparr>calls = [Call_commit '''' (Some ''1'') None None], logged = []\<rparr>"
  using unknown_type_of_commit [of
      "(object ''Commit'')\<lparr>id' := Some ''1'', type := Some ''SQUASH''\<rparr>" "''SQUASH''"
      commitType_tested 0 "\<lparr>calls = [], logged = []\<rparr>"]
  by (simp add: object_def commitType_tested_def Object_prototype_def)

text \<open>
  Claim C9 as stated fails: toString is not a key of the table, the type of this
  commit statement is toString, and the type argument of the call is the inherited
  function, not an absent value.
\<close>

theorem inherited_type_of_commit:
  "commitType_tested ''toString'' = None \<and>
   parseStatement commitType_tested
     ((object ''Commit'')\<lparr>id' := Some ''1'', type := Some ''toString''\<rparr>)
     \<lparr>calls = [], logged = []\<rparr> =
   Inr \<lparr>calls = [Call_commit '''' (Some ''1'') (Some (Member ''toString'')) None],
        logged = []\<rparr>"
  by (simp add: parseStatement_def parsers_def parseCommit_def db_commit_def object_def
      commitType_tested_def read_commitType_def Object_prototype_def)

text \<open>
  Claim C10. \<open>populate\<close> is deterministic: two runs on the same tree, started in any
  two worlds (whatever \<open>db\<close> has recorded and the log holds before, and whatever the
  common initialisation has left), make the same sequence of invocations, method by
  method and argument by argument, and both return or both throw. Each run only
  appends its invocations to what \<open>db\<close> held.
\<close>

theorem populate_deterministic:
  assumes "populateCommonDb ast w1 = Inr u1" and "populateCommonDb ast w2 = Inr u2"
  shows "invocations u1 (populate ct populateCommonDb ast w1) =
       invocations u2 (populate ct populateCommonDb ast w2) \<and>
     calls (final (populate ct populateCommonDb ast w1)) =
       calls u1 @ invocations u1 (populate ct populateCommonDb ast w1) \<and>
     calls (final (populate ct populateCommonDb ast w2)) =
       calls u2 @ invocations u2 (populate ct populateCommonDb ast w2) \<and>
     isl (populate ct populateCommonDb ast w1) = isl (populate ct populateCommonDb ast w2)"
  using assms by (simp add: populate_invocations populate_final populate_isl)

theorem populate_deterministic_witness:
  "invocations \<lparr>calls = [], logged = []\<rparr>
     (populate commitType_tested populateCommonDb_mock
        \<lparr>dir = Some ''TB'', statements = [object ''Tag'', (object ''Checkout'')\<lparr>branch := Some ''main''\<rparr>]\<rparr>
        \<lparr>calls = [], logged = []\<rparr>) =
   invocations \<lparr>calls = [Call_branch (Some ''develop'') 2], logged = [''earlier'']\<rparr>
     (populate commitType_tested populateCommonDb_mock
        \<lparr>dir = Some ''TB'', statements = [object ''Tag'', (object ''Checkout'')\<lparr>branch := Some ''main''\<rparr>]\<rparr>
        \<lparr>calls = [Call_branch (Some ''develop'') 2], logged = [''earlier'']\<rparr>)"
  using populate_deterministic [of populateCommonDb_mock
      "\<lparr>dir = Some ''TB'', statements = [object ''Tag'', (object ''Checkout'')\<lparr>branch := Some ''main''\<rparr>]\<rparr>"
      "\<lparr>calls = [], logged = []\<rparr>" "\<lparr>calls = [], logged = []\<rparr>"
      "\<lparr>calls = [Call_branch (Some ''develop'') 2], logged = [''earlier'']\<rparr>"
      "\<lparr>calls = [Call_branch (Some ''develop'') 2], logged = [''earlier'']\<rparr>" commitType_tested]
  by (simp add: populateCommonDb_mock_def)

end
